theory Spec2Isabelle
  imports Main "HOL-Library.Word"
begin

section \<open>Values crossing the export surface\<close>

text \<open>
  The exported functions of \<^verbatim>\<open>HolisticTrackingApi.h\<close> take and return primitive C
  values only: \<^verbatim>\<open>int\<close> (32 bits, wrapping), \<^verbatim>\<open>bool\<close> and raw pointers
  (\<^verbatim>\<open>const char*\<close>, \<^verbatim>\<open>void*\<close>, \<^verbatim>\<open>int*\<close>), which are addresses; the null pointer is
  address 0.
\<close>

type_synonym cint = "32 word"
type_synonym ptr = "64 word"

section \<open>The detector class, as the export surface uses it\<close>

text \<open>
  Modelled from the spec: the declaration of class \<^verbatim>\<open>HolisticTrackingDetect\<close>
  (\<^verbatim>\<open>HolisticTrackingDetect.h\<close>, included by \<^verbatim>\<open>HolisticTrackingApi.cpp\<close>). The
  export surface uses a default constructor and five methods, each returning the \<^verbatim>\<open>int\<close>
  that the exported function hands on. A method runs on the object it is called on
  (type \<open>'d\<close>) and on the rest of the process (type \<open>'m\<close>: the memory behind the pointer
  arguments, the camera, the model files); it returns its \<^verbatim>\<open>int\<close> with the updated
  object and process, or \<open>None\<close> when the call does not return (a crash, or a capture loop
  that never ends).
\<close>

type_synonym ('d, 'm) member_function = "'d \<times> 'm \<Rightarrow> (cint \<times> 'd \<times> 'm) option"

record ('d, 'm) HolisticTrackingDetect =
  construct :: 'd
  InitModel :: "ptr \<Rightarrow> bool \<Rightarrow> bool \<Rightarrow> bool \<Rightarrow> bool \<Rightarrow> ('d, 'm) member_function"
  DetectImageDirect :: "cint \<Rightarrow> cint \<Rightarrow> ptr \<Rightarrow> ptr \<Rightarrow> bool \<Rightarrow> ('d, 'm) member_function"
  DetectImage :: "cint \<Rightarrow> cint \<Rightarrow> cint \<Rightarrow> ptr \<Rightarrow> ptr \<Rightarrow> ptr \<Rightarrow> ('d, 'm) member_function"
  DetectCamera :: "bool \<Rightarrow> ('d, 'm) member_function"
  Release :: "('d, 'm) member_function"

section \<open>The process state and the exported functions\<close>

text \<open>
  \<^verbatim>\<open>HolisticTrackingDetect m_HolisticTrackingDetect;\<close> is the one variable of
  \<^verbatim>\<open>HolisticTrackingApi.cpp\<close>. The state of the process is that object and everything
  else (\<open>world\<close>).
\<close>

record ('d, 'm) process =
  m_HolisticTrackingDetect :: 'd
  world :: 'm

text \<open>Loading the library runs the constructor of the global, once.\<close>

definition library_load :: "('d, 'm) HolisticTrackingDetect \<Rightarrow> 'm \<Rightarrow> ('d, 'm) process" where
  "library_load D w = \<lparr>m_HolisticTrackingDetect = construct D, world = w\<rparr>"

text \<open>
  \<^verbatim>\<open>return m_HolisticTrackingDetect.f(...);\<close>: the member call on the global object. The
  method mutates the object in place and may write through the pointers it was given.
\<close>

definition on_global :: "('d, 'm) member_function \<Rightarrow> ('d, 'm) process \<Rightarrow> (cint \<times> ('d, 'm) process) option" where
  "on_global f s =
     Option.bind (f (m_HolisticTrackingDetect s, world s))
       (\<lambda>(r, d', w'). Some (r, s\<lparr>m_HolisticTrackingDetect := d', world := w'\<rparr>))"

definition MediapipeHolisticTrackingInit ::
  "('d, 'm) HolisticTrackingDetect \<Rightarrow> ptr \<Rightarrow> bool \<Rightarrow> bool \<Rightarrow> bool \<Rightarrow> bool \<Rightarrow>
   ('d, 'm) process \<Rightarrow> (cint \<times> ('d, 'm) process) option" where
  "MediapipeHolisticTrackingInit D model_path is_need_video_outputstream
       is_need_pose_outputstream is_need_hand_outputstream is_need_face_outputstream =
     on_global (InitModel D model_path is_need_video_outputstream is_need_pose_outputstream
       is_need_hand_outputstream is_need_face_outputstream)"

definition MediapipeHolisticTrackingDetectFrameDirect ::
  "('d, 'm) HolisticTrackingDetect \<Rightarrow> cint \<Rightarrow> cint \<Rightarrow> ptr \<Rightarrow> ptr \<Rightarrow> bool \<Rightarrow>
   ('d, 'm) process \<Rightarrow> (cint \<times> ('d, 'm) process) option" where
  "MediapipeHolisticTrackingDetectFrameDirect D image_width image_height image_data
       detect_result show_result_image =
     on_global (DetectImageDirect D image_width image_height image_data detect_result
       show_result_image)"

definition MediapipeHolisticTrackingDetectCamera ::
  "('d, 'm) HolisticTrackingDetect \<Rightarrow> bool \<Rightarrow>
   ('d, 'm) process \<Rightarrow> (cint \<times> ('d, 'm) process) option" where
  "MediapipeHolisticTrackingDetectCamera D show_image = on_global (DetectCamera D show_image)"

definition MediapipeHolisticTrackingRelease ::
  "('d, 'm) HolisticTrackingDetect \<Rightarrow> ('d, 'm) process \<Rightarrow> (cint \<times> ('d, 'm) process) option" where
  "MediapipeHolisticTrackingRelease D = on_global (Release D)"

definition MediapipeHolisticTrackingDetectFrame ::
  "('d, 'm) HolisticTrackingDetect \<Rightarrow> cint \<Rightarrow> cint \<Rightarrow> cint \<Rightarrow> ptr \<Rightarrow> ptr \<Rightarrow> ptr \<Rightarrow>
   ('d, 'm) process \<Rightarrow> (cint \<times> ('d, 'm) process) option" where
  "MediapipeHolisticTrackingDetectFrame D image_width image_height type image_data
       detect_result detect_result_data =
     on_global (DetectImage D image_width image_height type image_data detect_result
       detect_result_data)"

section \<open>Calls with default arguments\<close>

text \<open>
  \<^verbatim>\<open>HolisticTrackingApi.h\<close> declares default arguments: the four stream flags of
  \<^verbatim>\<open>MediapipeHolisticTrackingInit\<close> default to \<^verbatim>\<open>true\<close>, \<^verbatim>\<open>show_result_image\<close> of
  \<^verbatim>\<open>MediapipeHolisticTrackingDetectFrameDirect\<close> and \<^verbatim>\<open>show_image\<close> of
  \<^verbatim>\<open>MediapipeHolisticTrackingDetectCamera\<close> default to \<^verbatim>\<open>false\<close>. A C++ call site gives
  such an argument (\<open>Some b\<close>) or leaves it out (\<open>None\<close>), and the compiler fills in the
  declared default. (C++ lets a call leave out a suffix of the arguments only.)
\<close>

definition default_arg :: "'a \<Rightarrow> 'a option \<Rightarrow> 'a" where
  "default_arg dflt a = (case a of None \<Rightarrow> dflt | Some x \<Rightarrow> x)"

definition cxx_MediapipeHolisticTrackingInit ::
  "('d, 'm) HolisticTrackingDetect \<Rightarrow> ptr \<Rightarrow> bool option \<Rightarrow> bool option \<Rightarrow> bool option \<Rightarrow>
   bool option \<Rightarrow> ('d, 'm) process \<Rightarrow> (cint \<times> ('d, 'm) process) option" where
  "cxx_MediapipeHolisticTrackingInit D model_path is_need_video_outputstream
       is_need_pose_outputstream is_need_hand_outputstream is_need_face_outputstream =
     MediapipeHolisticTrackingInit D model_path
       (default_arg True is_need_video_outputstream)
       (default_arg True is_need_pose_outputstream)
       (default_arg True is_need_hand_outputstream)
       (default_arg True is_need_face_outputstream)"

definition cxx_MediapipeHolisticTrackingDetectFrameDirect ::
  "('d, 'm) HolisticTrackingDetect \<Rightarrow> cint \<Rightarrow> cint \<Rightarrow> ptr \<Rightarrow> ptr \<Rightarrow> bool option \<Rightarrow>
   ('d, 'm) process \<Rightarrow> (cint \<times> ('d, 'm) process) option" where
  "cxx_MediapipeHolisticTrackingDetectFrameDirect D image_width image_height image_data
       detect_result show_result_image =
     MediapipeHolisticTrackingDetectFrameDirect D image_width image_height image_data
       detect_result (default_arg False show_result_image)"

definition cxx_MediapipeHolisticTrackingDetectCamera ::
  "('d, 'm) HolisticTrackingDetect \<Rightarrow> bool option \<Rightarrow>
   ('d, 'm) process \<Rightarrow> (cint \<times> ('d, 'm) process) option" where
  "cxx_MediapipeHolisticTrackingDetectCamera D show_image =
     MediapipeHolisticTrackingDetectCamera D (default_arg False show_image)"

section \<open>The host's calls\<close>

text \<open>
  The host calls the exported functions one after the other (the library has no
  synchronisation of its own). \<open>api_call\<close> names an exported function with its
  arguments, \<open>api\<close> runs one call and \<open>run\<close> a sequence of calls, stopping where a call
  does not return.
\<close>

datatype api_call =
    ApiInit ptr bool bool bool bool
  | ApiDetectFrameDirect cint cint ptr ptr bool
  | ApiDetectCamera bool
  | ApiRelease
  | ApiDetectFrame cint cint cint ptr ptr ptr

fun api :: "('d, 'm) HolisticTrackingDetect \<Rightarrow> api_call \<Rightarrow>
    ('d, 'm) process \<Rightarrow> (cint \<times> ('d, 'm) process) option" where
  "api D (ApiInit model_path v p h f) = MediapipeHolisticTrackingInit D model_path v p h f"
| "api D (ApiDetectFrameDirect image_width image_height image_data detect_result show) =
     MediapipeHolisticTrackingDetectFrameDirect D image_width image_height image_data
       detect_result show"
| "api D (ApiDetectCamera show_image) = MediapipeHolisticTrackingDetectCamera D show_image"
| "api D ApiRelease = MediapipeHolisticTrackingRelease D"
| "api D (ApiDetectFrame image_width image_height type image_data detect_result
       detect_result_data) =
     MediapipeHolisticTrackingDetectFrame D image_width image_height type image_data
       detect_result detect_result_data"

fun run :: "('d, 'm) HolisticTrackingDetect \<Rightarrow> api_call list \<Rightarrow>
    ('d, 'm) process \<Rightarrow> (cint list \<times> ('d, 'm) process) option" where
  "run D [] s = Some ([], s)"
| "run D (c # cs) s =
     (case api D c s of
        None \<Rightarrow> None
      | Some (r, s') \<Rightarrow>
          (case run D cs s' of None \<Rightarrow> None | Some (rs, s'') \<Rightarrow> Some (r # rs, s'')))"

fun is_init :: "api_call \<Rightarrow> bool" where
  "is_init (ApiInit model_path v p h f) = True"
| "is_init c = False"

fun is_detect :: "api_call \<Rightarrow> bool" where
  "is_detect (ApiDetectFrameDirect image_width image_height image_data detect_result show) = True"
| "is_detect (ApiDetectCamera show_image) = True"
| "is_detect (ApiDetectFrame image_width image_height type image_data detect_result
       detect_result_data) = True"
| "is_detect c = False"

section \<open>Pass-through, as the specification words it\<close>

text \<open>
  The specification calls the exported functions pure pass-through: the call goes to the
  single detector instance, the caller gets exactly what the method returned, and nothing
  else happens. \<open>pass_through\<close> says this for one method call; \<open>corresponding\<close> is the
  specification's pairing of exported functions with detector methods; \<open>single_instance\<close>
  is one detector object receiving a sequence of method calls.
\<close>

definition pass_through :: "('d, 'm) member_function \<Rightarrow> ('d, 'm) process \<Rightarrow> (cint \<times> ('d, 'm) process) option" where
  "pass_through f s =
     (case f (m_HolisticTrackingDetect s, world s) of
        None \<Rightarrow> None
      | Some (r, d', w') \<Rightarrow> Some (r, \<lparr>m_HolisticTrackingDetect = d', world = w'\<rparr>))"

datatype method_call =
    InitModel_call ptr bool bool bool bool
  | DetectImageDirect_call cint cint ptr ptr bool
  | DetectImage_call cint cint cint ptr ptr ptr
  | DetectCamera_call bool
  | Release_call

fun corresponding :: "api_call \<Rightarrow> method_call" where
  "corresponding (ApiInit model_path v p h f) = InitModel_call model_path v p h f"
| "corresponding (ApiDetectFrameDirect image_width image_height image_data detect_result show) =
     DetectImageDirect_call image_width image_height image_data detect_result show"
| "corresponding (ApiDetectFrame image_width image_height type image_data detect_result
       detect_result_data) =
     DetectImage_call image_width image_height type image_data detect_result detect_result_data"
| "corresponding (ApiDetectCamera show_image) = DetectCamera_call show_image"
| "corresponding ApiRelease = Release_call"

fun invoke :: "('d, 'm) HolisticTrackingDetect \<Rightarrow> method_call \<Rightarrow> ('d, 'm) member_function" where
  "invoke D (InitModel_call model_path v p h f) = InitModel D model_path v p h f"
| "invoke D (DetectImageDirect_call image_width image_height image_data detect_result show) =
     DetectImageDirect D image_width image_height image_data detect_result show"
| "invoke D (DetectImage_call image_width image_height type image_data detect_result
       detect_result_data) =
     DetectImage D image_width image_height type image_data detect_result detect_result_data"
| "invoke D (DetectCamera_call show_image) = DetectCamera D show_image"
| "invoke D Release_call = Release D"

fun single_instance :: "('d, 'm) HolisticTrackingDetect \<Rightarrow> method_call list \<Rightarrow>
    'd \<times> 'm \<Rightarrow> (cint list \<times> 'd \<times> 'm) option" where
  "single_instance D [] (d, w) = Some ([], d, w)"
| "single_instance D (c # cs) (d, w) =
     (case invoke D c (d, w) of
        None \<Rightarrow> None
      | Some (r, d', w') \<Rightarrow>
          (case single_instance D cs (d', w') of
             None \<Rightarrow> None
           | Some (rs, d'', w'') \<Rightarrow> Some (r # rs, d'', w'')))"

section \<open>A recording detector\<close>

text \<open>
  A test double for the detector: its object is the list of the method calls it has
  received, with their arguments; every method appends its own call, touches nothing else
  and returns the fixed code \<open>r\<close>. What the export surface delivers to the detector can be
  read from it.
\<close>

definition record_call :: "cint \<Rightarrow> method_call \<Rightarrow> (method_call list, 'm) member_function" where
  "record_call r c = (\<lambda>(calls, w). Some (r, calls @ [c], w))"

definition recording :: "cint \<Rightarrow> (method_call list, 'm) HolisticTrackingDetect" where
  "recording r =
     \<lparr>construct = [],
      InitModel = (\<lambda>model_path v p h f. record_call r (InitModel_call model_path v p h f)),
      DetectImageDirect = (\<lambda>image_width image_height image_data detect_result show.
         record_call r
           (DetectImageDirect_call image_width image_height image_data detect_result show)),
      DetectImage = (\<lambda>image_width image_height type image_data detect_result
           detect_result_data.
         record_call r
           (DetectImage_call image_width image_height type image_data detect_result
              detect_result_data)),
      DetectCamera = (\<lambda>show_image. record_call r (DetectCamera_call show_image)),
      Release = record_call r Release_call\<rparr>"

section \<open>The detector, as the specification describes it\<close>

text \<open>
  Modelled from the spec: the implementation of class \<^verbatim>\<open>HolisticTrackingDetect\<close>
  (\<^verbatim>\<open>HolisticTrackingDetect.cpp\<close>: its constructor and the bodies of \<^verbatim>\<open>InitModel\<close>,
  \<^verbatim>\<open>DetectImageDirect\<close>, \<^verbatim>\<open>DetectImage\<close>, \<^verbatim>\<open>DetectCamera\<close> and \<^verbatim>\<open>Release\<close>), which
  is not part of the material. The specification gives the detector a lifecycle,
  uninitialized, then initialized by \<^verbatim>\<open>InitModel\<close> (which loads a model file and
  configures which of the output streams video, pose, hand and face are active), then
  serving detection calls, then released. This is the only state of the object.
\<close>

datatype lifecycle =
    Uninitialized
  | Initialized (video: bool) (pose: bool) (hand: bool) (face: bool)
  | Released

text \<open>
  Modelled from the spec: what MediaPipe, the file system and the camera do for the
  detector, which the specification leaves to the external detector ("invalid path,
  malformed frame, camera unavailable"). Each entry answers whether the work succeeded,
  with the process as the work left it, or \<open>None\<close> when the work does not return.
\<close>

record 'm environment =
  load_model :: "lifecycle \<Rightarrow> ptr \<Rightarrow> bool \<Rightarrow> bool \<Rightarrow> bool \<Rightarrow> bool \<Rightarrow> 'm \<Rightarrow> (bool \<times> 'm) option"
  run_frame_direct :: "lifecycle \<Rightarrow> cint \<Rightarrow> cint \<Rightarrow> ptr \<Rightarrow> ptr \<Rightarrow> bool \<Rightarrow> 'm \<Rightarrow> (bool \<times> 'm) option"
  run_frame :: "lifecycle \<Rightarrow> cint \<Rightarrow> cint \<Rightarrow> cint \<Rightarrow> ptr \<Rightarrow> ptr \<Rightarrow> ptr \<Rightarrow> 'm \<Rightarrow> (bool \<times> 'm) option"
  run_camera :: "lifecycle \<Rightarrow> bool \<Rightarrow> 'm \<Rightarrow> (bool \<times> 'm) option"
  teardown :: "lifecycle \<Rightarrow> 'm \<Rightarrow> (bool \<times> 'm) option"

text \<open>
  Modelled from the spec: the return code of every method, "\<^verbatim>\<open>0\<close> = failure, \<^verbatim>\<open>1\<close> =
  success", with no other value.
\<close>

definition return_code :: "bool \<Rightarrow> cint" where
  "return_code ok = (if ok then 1 else 0)"

text \<open>
  Modelled from the spec: \<^verbatim>\<open>InitModel\<close> "loads a model file and configures which output
  streams are active"; on success the detector is initialized with the four flags it was
  given, on failure it stays as it was.
\<close>

definition spec_InitModel ::
  "'m environment \<Rightarrow> ptr \<Rightarrow> bool \<Rightarrow> bool \<Rightarrow> bool \<Rightarrow> bool \<Rightarrow> (lifecycle, 'm) member_function" where
  "spec_InitModel env model_path v p h f = (\<lambda>(d, w).
     case load_model env d model_path v p h f w of
       None \<Rightarrow> None
     | Some (ok, w') \<Rightarrow>
         Some (return_code ok, if ok then Initialized v p h f else d, w'))"

text \<open>
  Modelled from the spec: a detection call. On an initialized detector the frame or the
  camera is processed and the call reports whether that worked; the specification has the
  detector's state "mutated only via \<^verbatim>\<open>InitModel\<close> / \<^verbatim>\<open>Release\<close>", so the object stays
  as it is. Before \<^verbatim>\<open>Init\<close> and after \<^verbatim>\<open>Release\<close> the call "returns failure rather than
  crashing".
\<close>

definition spec_detect :: "(lifecycle \<Rightarrow> 'm \<Rightarrow> (bool \<times> 'm) option) \<Rightarrow> (lifecycle, 'm) member_function" where
  "spec_detect work = (\<lambda>(d, w).
     case d of
       Initialized v p h f \<Rightarrow>
         (case work d w of None \<Rightarrow> None | Some (ok, w') \<Rightarrow> Some (return_code ok, d, w'))
     | _ \<Rightarrow> Some (0, d, w))"

text \<open>
  Modelled from the spec: \<^verbatim>\<open>Release\<close> "tears down the detector". Before \<^verbatim>\<open>Init\<close> it
  "returns failure rather than crashing"; otherwise the detector is released when the call
  returns, whatever the teardown reported ("\<^verbatim>\<open>Release\<close> followed by any detect call returns
  failure").
\<close>

definition spec_Release :: "'m environment \<Rightarrow> (lifecycle, 'm) member_function" where
  "spec_Release env = (\<lambda>(d, w).
     case d of
       Uninitialized \<Rightarrow> Some (0, d, w)
     | _ \<Rightarrow>
         (case teardown env d w of
            None \<Rightarrow> None
          | Some (ok, w') \<Rightarrow> Some (return_code ok, Released, w')))"

text \<open>
  Modelled from the spec: the class as a whole; a detector is constructed uninitialized.
\<close>

definition spec_detector :: "'m environment \<Rightarrow> (lifecycle, 'm) HolisticTrackingDetect" where
  "spec_detector env =
     \<lparr>construct = Uninitialized,
      InitModel = spec_InitModel env,
      DetectImageDirect = (\<lambda>image_width image_height image_data detect_result show.
         spec_detect (\<lambda>d. run_frame_direct env d image_width image_height image_data
           detect_result show)),
      DetectImage = (\<lambda>image_width image_height type image_data detect_result
           detect_result_data.
         spec_detect (\<lambda>d. run_frame env d image_width image_height type image_data
           detect_result detect_result_data)),
      DetectCamera = (\<lambda>show_image. spec_detect (\<lambda>d. run_camera env d show_image)),
      Release = spec_Release env\<rparr>"

text \<open>
  An environment to run the detector of the specification on concrete inputs: a model
  loads from any non-null path, a frame is processed when its buffer is non-null and its
  dimensions are positive, the camera and the teardown always work. The process beyond
  the detector is the number of frames processed so far.
\<close>

definition sample_environment :: "nat environment" where
  "sample_environment =
     \<lparr>load_model = (\<lambda>d model_path v p h f w. Some (model_path \<noteq> 0, w)),
      run_frame_direct = (\<lambda>d image_width image_height image_data detect_result show w.
         if image_data \<noteq> 0 \<and> 0 <s image_width \<and> 0 <s image_height
         then Some (True, Suc w) else Some (False, w)),
      run_frame = (\<lambda>d image_width image_height type image_data detect_result
           detect_result_data w.
         if image_data \<noteq> 0 \<and> 0 <s image_width \<and> 0 <s image_height
         then Some (True, Suc w) else Some (False, w)),
      run_camera = (\<lambda>d show_image w. Some (True, Suc w)),
      teardown = (\<lambda>d w. Some (True, w))\<rparr>"


section \<open>The exported functions over a detector with several possible outcomes\<close>

text \<open>
  Modelled from the spec: the declaration of class \<^verbatim>\<open>HolisticTrackingDetect\<close> once more,
  for a detector whose calls need not end the same way each time (MediaPipe, the camera
  and the files are outside the material). \<open>B c (d, w) out\<close> says that the method call
  \<open>c\<close> on the object \<open>d\<close> in the process \<open>w\<close> may end with \<open>out\<close>: a return value with
  the updated object and process, or \<open>None\<close> when the call does not return.
\<close>

type_synonym ('d, 'm) behaviour = "method_call \<Rightarrow> 'd \<times> 'm \<Rightarrow> (cint \<times> 'd \<times> 'm) option \<Rightarrow> bool"

text \<open>
  What a call of an exported function ended with, read as the end of the member call on
  the global: the same return value, the global as the object, the rest as the process.
\<close>

definition as_method_outcome ::
  "(cint \<times> ('d, 'm) process) option \<Rightarrow> (cint \<times> 'd \<times> 'm) option" where
  "as_method_outcome out =
     map_option (\<lambda>(r, s'). (r, m_HolisticTrackingDetect s', world s')) out"

text \<open>
  \<^verbatim>\<open>return m_HolisticTrackingDetect.f(...);\<close> over such a detector: the call of the
  exported function may end in a way exactly when the member call on the global may end
  in that way. The five functions follow \<^verbatim>\<open>HolisticTrackingApi.cpp\<close> as before.
\<close>

definition on_global_may ::
  "('d \<times> 'm \<Rightarrow> (cint \<times> 'd \<times> 'm) option \<Rightarrow> bool) \<Rightarrow> ('d, 'm) process \<Rightarrow>
   (cint \<times> ('d, 'm) process) option \<Rightarrow> bool" where
  "on_global_may f s out = f (m_HolisticTrackingDetect s, world s) (as_method_outcome out)"

fun exported_may :: "('d, 'm) behaviour \<Rightarrow> api_call \<Rightarrow> ('d, 'm) process \<Rightarrow>
    (cint \<times> ('d, 'm) process) option \<Rightarrow> bool" where
  "exported_may B (ApiInit model_path is_need_video_outputstream is_need_pose_outputstream
       is_need_hand_outputstream is_need_face_outputstream) =
     on_global_may (B (InitModel_call model_path is_need_video_outputstream
       is_need_pose_outputstream is_need_hand_outputstream is_need_face_outputstream))"
| "exported_may B (ApiDetectFrameDirect image_width image_height image_data detect_result
       show_result_image) =
     on_global_may (B (DetectImageDirect_call image_width image_height image_data
       detect_result show_result_image))"
| "exported_may B (ApiDetectCamera show_image) = on_global_may (B (DetectCamera_call show_image))"
| "exported_may B ApiRelease = on_global_may (B Release_call)"
| "exported_may B (ApiDetectFrame image_width image_height type image_data detect_result
       detect_result_data) =
     on_global_may (B (DetectImage_call image_width image_height type image_data
       detect_result detect_result_data))"

text \<open>A detector given by its methods, as the relation between a call and its one outcome.\<close>

definition behaviour_of :: "('d, 'm) HolisticTrackingDetect \<Rightarrow> ('d, 'm) behaviour" where
  "behaviour_of D c x out = (invoke D c x = out)"


section \<open>The export surface forwards\<close>

text \<open>The five exported functions, unfolded together.\<close>

lemmas exported_defs =
  MediapipeHolisticTrackingInit_def MediapipeHolisticTrackingDetectFrameDirect_def
  MediapipeHolisticTrackingDetectCamera_def MediapipeHolisticTrackingRelease_def
  MediapipeHolisticTrackingDetectFrame_def

lemma on_global_pass_through: "on_global f s = pass_through f s"
  by (cases s) (simp add: on_global_def pass_through_def split: option.splits prod.splits)

lemma pass_through_return:
  "map_option fst (pass_through f s) = map_option fst (f (m_HolisticTrackingDetect s, world s))"
  by (simp add: pass_through_def split: option.splits)

lemma pass_through_None:
  "(pass_through f s = None) = (f (m_HolisticTrackingDetect s, world s) = None)"
  by (simp add: pass_through_def split: option.splits)

lemma pass_through_record_call:
  "pass_through (record_call r c) s =
     Some (r, s\<lparr>m_HolisticTrackingDetect := m_HolisticTrackingDetect s @ [c]\<rparr>)"
  by (cases s) (simp add: pass_through_def record_call_def)

lemma api_pass_through: "api D c s = pass_through (invoke D (corresponding c)) s"
  by (cases c) (simp_all add: exported_defs on_global_pass_through)

lemma run_single_instance:
  "run D cs s =
     map_option (\<lambda>(rs, d, w). (rs, \<lparr>m_HolisticTrackingDetect = d, world = w\<rparr>))
       (single_instance D (map corresponding cs) (m_HolisticTrackingDetect s, world s))"
proof (induction cs arbitrary: s)
  case Nil
  show ?case by (cases s) simp
next
  case (Cons c cs)
  show ?case
    by (simp add: api_pass_through pass_through_def Cons.IH split: option.splits prod.splits)
qed

section \<open>The detector of the specification outside its serving stage\<close>

text \<open>
  An uninitialized detector answers every detect and release call with 0 and stays as it
  is; a detector that is not initialized (never initialized, or released) answers every
  detect call with 0, and no call other than an \<^verbatim>\<open>Init\<close> that succeeds makes it
  initialized.
\<close>

lemmas spec_defs =
  spec_detector_def spec_InitModel_def spec_detect_def spec_Release_def return_code_def

lemma spec_uninitialized:
  assumes "\<not> is_init c" and "m_HolisticTrackingDetect s = Uninitialized"
  shows "api (spec_detector env) c s = Some (0, s)"
  using assms
  by (cases c; cases s)
     (simp_all add: exported_defs on_global_pass_through pass_through_def spec_defs)





lemma spec_uninitialized_run:
  assumes "list_all (\<lambda>c. \<not> is_init c) cs" and "m_HolisticTrackingDetect s = Uninitialized"
  shows "run (spec_detector env) cs s = Some (replicate (length cs) 0, s)"
  using assms by (induction cs) (simp_all add: spec_uninitialized)

lemma spec_load_uninitialized:
  "m_HolisticTrackingDetect (library_load (spec_detector env) w) = Uninitialized"
  by (simp add: library_load_def spec_detector_def)

text \<open>The recording detector holds the calls of a sequence in order.\<close>

lemma recording_run:
  "run (recording r) cs s =
     Some (replicate (length cs) r,
           s\<lparr>m_HolisticTrackingDetect := m_HolisticTrackingDetect s @ map corresponding cs\<rparr>)"
proof (induction cs arbitrary: s)
  case Nil
  show ?case by simp
next
  case (Cons c cs)
  have "api (recording r) c s =
      Some (r, s\<lparr>m_HolisticTrackingDetect := m_HolisticTrackingDetect s @ [corresponding c]\<rparr>)"
    by (cases c) (simp_all add: exported_defs on_global_pass_through recording_def
        pass_through_record_call)
  then show ?case by (simp add: Cons.IH)
qed

section \<open>Several possible outcomes: what the export surface adds\<close>

text \<open>
  Over a detector with several possible outcomes, a call of an exported function may end
  in a way exactly when the corresponding method call on the global, with the same
  arguments, may end in that way; different ends of the call come from different ends of
  the method call; and over a detector given by its methods this is the exported function
  of the first part.
\<close>

lemma exported_may_corresponding:
  "exported_may B c s out =
     B (corresponding c) (m_HolisticTrackingDetect s, world s) (as_method_outcome out)"
  by (cases c) (simp_all add: on_global_may_def)


lemma exported_may_behaviour_of: "exported_may (behaviour_of D) c s out = (api D c s = out)"
  by (cases s; cases out)
     (auto simp: exported_may_corresponding behaviour_of_def api_pass_through pass_through_def
        as_method_outcome_def split: option.splits)

text \<open>Everything needed to run the detector of the specification on a concrete input.\<close>

lemmas run_defs = exported_defs on_global_def spec_defs sample_environment_def library_load_def
  word_sless_alt

section \<open>Properties of the export surface\<close>

text \<open>
  C1. Each of the five exported functions is pure pass-through to the corresponding method
  of the global detector (\<^verbatim>\<open>Init\<close> to \<^verbatim>\<open>InitModel\<close>, \<^verbatim>\<open>DetectFrameDirect\<close> to
  \<^verbatim>\<open>DetectImageDirect\<close>, \<^verbatim>\<open>DetectFrame\<close> to \<^verbatim>\<open>DetectImage\<close>, \<^verbatim>\<open>DetectCamera\<close> to
  \<^verbatim>\<open>DetectCamera\<close>, \<^verbatim>\<open>Release\<close> to \<^verbatim>\<open>Release\<close>): for every detector, every argument
  tuple and every state, the function as written in the source equals \<open>pass_through\<close> of
  that method on the same arguments in the same order, and the value it returns is
  exactly the value the method returns. The export surface adds no check, no change of
  an argument, no second attempt and no reading of the result.
\<close>

theorem exported_functions_pass_through:
  "MediapipeHolisticTrackingInit D model_path v p h f s =
     pass_through (InitModel D model_path v p h f) s
   \<and> MediapipeHolisticTrackingDetectFrameDirect D image_width image_height image_data
       detect_result show_result_image s =
     pass_through (DetectImageDirect D image_width image_height image_data detect_result
       show_result_image) s
   \<and> MediapipeHolisticTrackingDetectFrame D image_width image_height type image_data
       detect_result detect_result_data s =
     pass_through (DetectImage D image_width image_height type image_data detect_result
       detect_result_data) s
   \<and> MediapipeHolisticTrackingDetectCamera D show_image s =
     pass_through (DetectCamera D show_image) s
   \<and> MediapipeHolisticTrackingRelease D s = pass_through (Release D) s
   \<and> map_option fst (MediapipeHolisticTrackingInit D model_path v p h f s) =
     map_option fst (InitModel D model_path v p h f (m_HolisticTrackingDetect s, world s))
   \<and> map_option fst (MediapipeHolisticTrackingDetectFrameDirect D image_width image_height
       image_data detect_result show_result_image s) =
     map_option fst (DetectImageDirect D image_width image_height image_data detect_result
       show_result_image (m_HolisticTrackingDetect s, world s))
   \<and> map_option fst (MediapipeHolisticTrackingDetectFrame D image_width image_height type
       image_data detect_result detect_result_data s) =
     map_option fst (DetectImage D image_width image_height type image_data detect_result
       detect_result_data (m_HolisticTrackingDetect s, world s))
   \<and> map_option fst (MediapipeHolisticTrackingDetectCamera D show_image s) =
     map_option fst (DetectCamera D show_image (m_HolisticTrackingDetect s, world s))
   \<and> map_option fst (MediapipeHolisticTrackingRelease D s) =
     map_option fst (Release D (m_HolisticTrackingDetect s, world s))"
  by (simp add: exported_defs on_global_pass_through pass_through_return)

text \<open>
  C2. On the detector of the specification, whatever the environment does, whatever the
  arguments and whatever the state of the detector, a call of any of the five exported
  functions that returns, returns 0 or 1.
\<close>

theorem return_code_zero_or_one:
  assumes "api (spec_detector env) c s = Some (r, s')"
  shows "r = 0 \<or> r = 1"
  using assms
  by (cases c; cases "m_HolisticTrackingDetect s")
     (auto simp: exported_defs on_global_pass_through pass_through_def spec_defs
        split: option.splits if_splits)

theorem return_code_zero_or_one_witness:
  "api (spec_detector sample_environment) (ApiInit 5 True True True True)
     (library_load (spec_detector sample_environment) 0) =
     Some (1, \<lparr>m_HolisticTrackingDetect = Initialized True True True True, world = 0\<rparr>)
   \<and> ((1::cint) = 0 \<or> (1::cint) = 1)"
proof -
  have h: "api (spec_detector sample_environment) (ApiInit 5 True True True True)
      (library_load (spec_detector sample_environment) 0) =
      Some (1, \<lparr>m_HolisticTrackingDetect = Initialized True True True True, world = 0\<rparr>)"
    by (simp add: run_defs)
  show ?thesis using h return_code_zero_or_one [OF h] by simp
qed

text \<open>
  C3. On the detector of the specification, before \<^verbatim>\<open>MediapipeHolisticTrackingInit\<close> has
  been called: starting from the freshly loaded library, every call in any sequence of
  calls of the three detect functions and of \<^verbatim>\<open>MediapipeHolisticTrackingRelease\<close> returns
  (no call crashes), the value returned is 0, and the process is left as it was.
\<close>

theorem detect_and_release_before_init_fail:
  assumes "list_all (\<lambda>c. \<not> is_init c) cs"
  shows "run (spec_detector env) cs (library_load (spec_detector env) w) =
         Some (replicate (length cs) 0, library_load (spec_detector env) w)"
  using assms spec_load_uninitialized by (rule spec_uninitialized_run)

theorem detect_and_release_before_init_fail_witness:
  "list_all (\<lambda>c. \<not> is_init c)
     [ApiDetectFrameDirect 640 480 4096 8192 False, ApiDetectFrame 640 480 1 4096 8192 12288,
      ApiDetectCamera True, ApiRelease]
   \<and> run (spec_detector sample_environment)
       [ApiDetectFrameDirect 640 480 4096 8192 False, ApiDetectFrame 640 480 1 4096 8192 12288,
        ApiDetectCamera True, ApiRelease]
       (library_load (spec_detector sample_environment) 0) =
     Some ([0, 0, 0, 0], \<lparr>m_HolisticTrackingDetect = Uninitialized, world = 0\<rparr>)"
proof -
  have h: "list_all (\<lambda>c. \<not> is_init c)
     [ApiDetectFrameDirect 640 480 4096 8192 False, ApiDetectFrame 640 480 1 4096 8192 12288,
      ApiDetectCamera True, ApiRelease]"
    by simp
  show ?thesis
    using h detect_and_release_before_init_fail [OF h, of sample_environment 0]
    by (simp add: library_load_def spec_detector_def)
qed




text \<open>
  C5. There is one detector instance, constructed when the library is loaded, and every
  exported function works on it. For every detector and every sequence of calls, running
  the calls through the export surface from the freshly loaded library is the same as
  constructing one detector object and invoking the corresponding methods on that one
  object in the same order. In particular a second \<^verbatim>\<open>MediapipeHolisticTrackingInit\<close>
  runs \<^verbatim>\<open>InitModel\<close> on the object the first one left, not on a new one; and the
  recording detector, constructed once, holds every call of the sequence in order.
\<close>

theorem one_detector_instance:
  "run D cs (library_load D w) =
     map_option (\<lambda>(rs, d, w'). (rs, \<lparr>m_HolisticTrackingDetect = d, world = w'\<rparr>))
       (single_instance D (map corresponding cs) (construct D, w))
   \<and> run D [ApiInit path1 v1 p1 h1 f1, ApiInit path2 v2 p2 h2 f2] (library_load D w) =
     (case InitModel D path1 v1 p1 h1 f1 (construct D, w) of
        None \<Rightarrow> None
      | Some (r1, d1, w1) \<Rightarrow>
          (case InitModel D path2 v2 p2 h2 f2 (d1, w1) of
             None \<Rightarrow> None
           | Some (r2, d2, w2) \<Rightarrow>
               Some ([r1, r2], \<lparr>m_HolisticTrackingDetect = d2, world = w2\<rparr>)))
   \<and> run (recording r) cs (library_load (recording r) w) =
     Some (replicate (length cs) r,
           \<lparr>m_HolisticTrackingDetect = map corresponding cs, world = w\<rparr>)"
proof -
  have "run D cs (library_load D w) =
     map_option (\<lambda>(rs, d, w'). (rs, \<lparr>m_HolisticTrackingDetect = d, world = w'\<rparr>))
       (single_instance D (map corresponding cs) (construct D, w))"
    by (simp add: run_single_instance library_load_def)
  moreover have "run D [ApiInit path1 v1 p1 h1 f1, ApiInit path2 v2 p2 h2 f2]
     (library_load D w) =
     (case InitModel D path1 v1 p1 h1 f1 (construct D, w) of
        None \<Rightarrow> None
      | Some (r1, d1, w1) \<Rightarrow>
          (case InitModel D path2 v2 p2 h2 f2 (d1, w1) of
             None \<Rightarrow> None
           | Some (r2, d2, w2) \<Rightarrow>
               Some ([r1, r2], \<lparr>m_HolisticTrackingDetect = d2, world = w2\<rparr>)))"
    by (simp add: MediapipeHolisticTrackingInit_def on_global_pass_through pass_through_def
        library_load_def split: option.splits)
  moreover have "run (recording r) cs (library_load (recording r) w) =
     Some (replicate (length cs) r,
           \<lparr>m_HolisticTrackingDetect = map corresponding cs, world = w\<rparr>)"
  proof -
    have "construct (recording r) = []" by (simp add: recording_def)
    then show ?thesis by (simp add: recording_run library_load_def)
  qed
  ultimately show ?thesis by simp
qed

text \<open>
  C6. On the detector of the specification, the three detect operations leave the global
  detector (which object it is, and its stage in the lifecycle with the configured
  streams) unchanged: of the five exported functions only
  \<^verbatim>\<open>MediapipeHolisticTrackingInit\<close> and \<^verbatim>\<open>MediapipeHolisticTrackingRelease\<close> can change
  it.
\<close>

theorem detect_leaves_detector_unchanged:
  assumes "is_detect c" and "api (spec_detector env) c s = Some (r, s')"
  shows "m_HolisticTrackingDetect s' = m_HolisticTrackingDetect s"
  using assms
  by (cases c; cases "m_HolisticTrackingDetect s")
     (auto simp: exported_defs on_global_pass_through pass_through_def spec_defs
        split: option.splits if_splits)

theorem detect_leaves_detector_unchanged_witness:
  "is_detect (ApiDetectFrameDirect 640 480 4096 8192 False)
   \<and> api (spec_detector sample_environment) (ApiDetectFrameDirect 640 480 4096 8192 False)
       \<lparr>m_HolisticTrackingDetect = Initialized True True False False, world = 3\<rparr> =
     Some (1, \<lparr>m_HolisticTrackingDetect = Initialized True True False False, world = 4\<rparr>)
   \<and> m_HolisticTrackingDetect
       \<lparr>m_HolisticTrackingDetect = Initialized True True False False, world = 4::nat\<rparr> =
     m_HolisticTrackingDetect
       \<lparr>m_HolisticTrackingDetect = Initialized True True False False, world = 3::nat\<rparr>"
proof -
  have h1: "is_detect (ApiDetectFrameDirect 640 480 4096 8192 False)" by simp
  have h2: "api (spec_detector sample_environment)
      (ApiDetectFrameDirect 640 480 4096 8192 False)
      \<lparr>m_HolisticTrackingDetect = Initialized True True False False, world = 3\<rparr> =
      Some (1, \<lparr>m_HolisticTrackingDetect = Initialized True True False False, world = 4\<rparr>)"
    by (simp add: run_defs)
  show ?thesis using h1 h2 detect_leaves_detector_unchanged [OF h1 h2] by simp
qed


text \<open>
  C8. With the default arguments declared in the header, a C++ call of
  \<^verbatim>\<open>MediapipeHolisticTrackingInit\<close> with a model path only is the call with all four
  stream flags true, and a call of \<^verbatim>\<open>MediapipeHolisticTrackingDetectFrameDirect\<close> or
  \<^verbatim>\<open>MediapipeHolisticTrackingDetectCamera\<close> without the show flag is the call with that
  flag false.
\<close>

theorem declared_default_arguments:
  "cxx_MediapipeHolisticTrackingInit D model_path None None None None =
     MediapipeHolisticTrackingInit D model_path True True True True
   \<and> cxx_MediapipeHolisticTrackingDetectFrameDirect D image_width image_height image_data
       detect_result None =
     MediapipeHolisticTrackingDetectFrameDirect D image_width image_height image_data
       detect_result False
   \<and> cxx_MediapipeHolisticTrackingDetectCamera D None =
     MediapipeHolisticTrackingDetectCamera D False"
  by (simp add: cxx_MediapipeHolisticTrackingInit_def
      cxx_MediapipeHolisticTrackingDetectFrameDirect_def
      cxx_MediapipeHolisticTrackingDetectCamera_def default_arg_def)

text \<open>
  C9. The export surface does not look at what its pointer arguments point to, nor at the
  image dimensions: for every value of \<^verbatim>\<open>model_path\<close>, \<^verbatim>\<open>image_data\<close>,
  \<^verbatim>\<open>detect_result\<close>, \<^verbatim>\<open>detect_result_data\<close>, \<^verbatim>\<open>image_width\<close> and \<^verbatim>\<open>image_height\<close>
  (null pointers and non-positive dimensions included) a call fails to return exactly
  when the detector's method, given the same values, fails to return, and the recording
  detector receives exactly the pointers and sizes that were passed.
\<close>

theorem pointers_and_sizes_reach_detector:
  "(MediapipeHolisticTrackingInit D model_path v p h f s = None) =
     (InitModel D model_path v p h f (m_HolisticTrackingDetect s, world s) = None)
   \<and> (MediapipeHolisticTrackingDetectFrameDirect D image_width image_height image_data
        detect_result show_result_image s = None) =
     (DetectImageDirect D image_width image_height image_data detect_result
        show_result_image (m_HolisticTrackingDetect s, world s) = None)
   \<and> (MediapipeHolisticTrackingDetectFrame D image_width image_height type image_data
        detect_result detect_result_data s = None) =
     (DetectImage D image_width image_height type image_data detect_result
        detect_result_data (m_HolisticTrackingDetect s, world s) = None)
   \<and> MediapipeHolisticTrackingInit (recording r) model_path v p h f t =
     Some (r, t\<lparr>m_HolisticTrackingDetect := m_HolisticTrackingDetect t @
       [InitModel_call model_path v p h f]\<rparr>)
   \<and> MediapipeHolisticTrackingDetectFrameDirect (recording r) image_width image_height
       image_data detect_result show_result_image t =
     Some (r, t\<lparr>m_HolisticTrackingDetect := m_HolisticTrackingDetect t @
       [DetectImageDirect_call image_width image_height image_data detect_result
          show_result_image]\<rparr>)
   \<and> MediapipeHolisticTrackingDetectFrame (recording r) image_width image_height type
       image_data detect_result detect_result_data t =
     Some (r, t\<lparr>m_HolisticTrackingDetect := m_HolisticTrackingDetect t @
       [DetectImage_call image_width image_height type image_data detect_result
          detect_result_data]\<rparr>)"
  by (simp add: exported_defs on_global_pass_through pass_through_None recording_def
      pass_through_record_call)




end
